theory Spec2Isabelle
  imports Main "HOL-Library.Sublist" "HOL-Library.Char_ord" "HOL-Library.List_Lexorder"
    "HOL-Library.AList"
begin

section \<open>The notice generator of \<^verbatim>\<open>dev-tools/generate_notice.py\<close>\<close>

text \<open>
  The script runs under Python 2 (\<^verbatim>\<open>unicode.lower\<close>, \<^verbatim>\<open>str.replace\<close> with a bytes
  pattern, a csv file opened in \<^verbatim>\<open>"wb"\<close> mode). A Python 2 \<^verbatim>\<open>str\<close> is a byte string, so
  texts are modelled as \<^typ>\<open>string\<close>, a list of 8-bit characters. Go module paths are ASCII,
  so the \<^verbatim>\<open>unicode\<close> paths decoded from JSON are modelled as \<^typ>\<open>string\<close> as well.
\<close>

subsection \<open>Exceptions\<close>

text \<open>The exceptions that the modelled code can raise; \<^verbatim>\<open>Exception\<close> carries its message.\<close>

datatype error =
    IndexError
  | KeyError string
  | AttributeError string
  | Exception string

subsection \<open>String operations of the Python library\<close>

text \<open>
  The class \<^verbatim>\<open>\s\<close> of \<^verbatim>\<open>re\<close> on a byte string, without flags: space, \<^verbatim>\<open>\t\<close>, \<^verbatim>\<open>\n\<close>,
  \<^verbatim>\<open>\r\<close>, \<^verbatim>\<open>\f\<close> and \<^verbatim>\<open>\v\<close>.
\<close>

definition is_space :: "char \<Rightarrow> bool" where
  "is_space c = (c = CHR '' '' \<or> c = CHR 0x09 \<or> c = CHR 0x0A \<or> c = CHR 0x0D
                 \<or> c = CHR 0x0C \<or> c = CHR 0x0B)"

text \<open>
  \<^verbatim>\<open>re.sub(r"\s+", ' ', content)\<close>: scanning from the left, every maximal run of white
  space is replaced by one space.
\<close>

function collapse_ws :: "string \<Rightarrow> string" where
  "collapse_ws [] = []"
| "collapse_ws (c # cs) =
     (if is_space c then CHR '' '' # collapse_ws (dropWhile is_space cs)
      else c # collapse_ws cs)"
  by pat_completeness auto
termination
  by (relation "measure length") (auto simp: le_imp_less_Suc length_dropWhile_le)

text \<open>
  \<^verbatim>\<open>s.replace(old, new)\<close>: the occurrences of \<open>old\<close> are found from the left and do not
  overlap. The source only calls it with a three-byte \<open>old\<close>; for an empty \<open>old\<close> (where
  Python inserts \<open>new\<close> between all characters) this function returns \<open>s\<close>.
\<close>

function str_replace :: "string \<Rightarrow> string \<Rightarrow> string \<Rightarrow> string" where
  "str_replace old new [] = []"
| "str_replace old new (c # cs) =
     (if old \<noteq> [] \<and> prefix old (c # cs)
      then new @ str_replace old new (drop (length old) (c # cs))
      else c # str_replace old new cs)"
  by pat_completeness auto
termination
  by (relation "measure (\<lambda>(old, new, s). length s)") auto

text \<open>\<^verbatim>\<open>sentence in window\<close> on strings is the test for a contiguous substring.\<close>

abbreviation str_in :: "string \<Rightarrow> string \<Rightarrow> bool" where
  "str_in sentence window \<equiv> sublist sentence window"

text \<open>\<^verbatim>\<open>s.split(sep)\<close> for a one-character separator; the result is never empty.\<close>

fun split_on :: "char \<Rightarrow> string \<Rightarrow> string list" where
  "split_on sep [] = [[]]"
| "split_on sep (c # cs) =
     (if c = sep then [] # split_on sep cs
      else (case split_on sep cs of
              [] \<Rightarrow> [[c]]
            | w # ws \<Rightarrow> (c # w) # ws))"

text \<open>\<^verbatim>\<open>s.rfind(sub)\<close>: the highest index where \<open>sub\<close> starts in \<open>s\<close>, or \<open>-1\<close>.\<close>

fun rfind_from :: "string \<Rightarrow> string \<Rightarrow> nat \<Rightarrow> int" where
  "rfind_from s sub 0 = (if prefix sub s then 0 else -1)"
| "rfind_from s sub (Suc i) =
     (if prefix sub (drop (Suc i) s) then int (Suc i) else rfind_from s sub i)"

definition rfind :: "string \<Rightarrow> string \<Rightarrow> int" where
  "rfind s sub = rfind_from s sub (length s)"

text \<open>\<^verbatim>\<open>unicode.lower\<close> on an ASCII string.\<close>

definition lower_char :: "char \<Rightarrow> char" where
  "lower_char c =
     (if CHR ''A'' \<le> c \<and> c \<le> CHR ''Z'' then char_of (of_char c + (32::nat)) else c)"

definition lower :: "string \<Rightarrow> string" where
  "lower s = map lower_char s"

text \<open>\<^verbatim>\<open>os.path.basename\<close> (posix): what follows the last slash.\<close>

definition basename :: "string \<Rightarrow> string" where
  "basename p = rev (takeWhile (\<lambda>c. c \<noteq> CHR ''/'') (rev p))"

text \<open>\<^verbatim>\<open>"{}".format(n)\<close> for a non-negative integer: its decimal digits.\<close>

function str_of_nat :: "nat \<Rightarrow> string" where
  "str_of_nat n =
     (if n < 10 then [char_of (48 + n)]
      else str_of_nat (n div 10) @ [char_of (48 + n mod 10)])"
  by pat_completeness auto
termination
  by (relation "measure id") auto

subsection \<open>The literal tables of the classifier\<close>

text \<open>
  Each literal is written as the source builds it: the multi-line ones have passed through
  \<^verbatim>\<open>re.sub(r"\s+", " ", ...)\<close>, which leaves one space for each line break and for the
  indentation before a closing triple quote (hence the trailing space of some of them).
  The sentences of the MIT and BSD tables are named by their index in the table.
\<close>

definition APACHE2_LICENSE_TITLES :: "string list" where
  \<open>APACHE2_LICENSE_TITLES =
    [''Apache License 2.0'',
     ''Apache License Version 2.0'',
     ''Apache License, Version 2.0'',
     ''licensed under the Apache 2.0 license'',
     ''Apache License ============== _Version 2.0, January 2004_'']\<close>

definition MIT_LICENSES_0 :: string where
  \<open>MIT_LICENSES_0 =
     ''Permission is hereby granted, free of charge, to any person obtaining a '' @
     ''copy of this software and associated documentation '' @
     ''files (the "Software"), to deal in the Software without restriction, '' @
     ''including without limitation the rights to use, copy, modify, merge, '' @
     ''publish, distribute, sublicense, and/or sell copies of the Software, '' @
     ''and to permit persons to whom the Software is furnished to do so, '' @
     ''subject to the following conditions: The above copyright notice and '' @
     ''this permission notice shall be included in all copies or substantial '' @
     ''portions of the Software. ''\<close>

definition MIT_LICENSES_1 :: string where
  \<open>MIT_LICENSES_1 =
     ''Permission to use, copy, modify, and distribute this software for any '' @
     ''purpose with or without fee is hereby granted, provided that the above '' @
     ''copyright notice and this permission notice appear in all copies.''\<close>

definition MIT_LICENSES_2 :: string where
  \<open>MIT_LICENSES_2 =
     ''Permission is hereby granted, free of charge, to any person obtaining a '' @
     ''copy of this software and associated documentation '' @
     ''files (the 'Software'), to deal in the Software without restriction, '' @
     ''including without limitation the rights to use, copy, modify, merge, '' @
     ''publish, distribute, sublicense, and/or sell copies of the Software, '' @
     ''and to permit persons to whom the Software is furnished to do so, '' @
     ''subject to the following conditions: ''\<close>

definition MIT_LICENSES_3 :: string where
  \<open>MIT_LICENSES_3 =
     ''Permission is hereby granted, free of charge, to any person obtaining a '' @
     ''copy of this software and associated documentation '' @
     ''files (the "Software"), to deal in the Software without restriction, '' @
     ''including without limitation the rights to use, copy, modify, merge, '' @
     ''publish, distribute, sublicense, and/or sell copies of the Software, '' @
     ''and to permit persons to whom the Software is furnished to do so. THE '' @
     ''SOFTWARE IS PROVIDED "AS IS", WITHOUT WARRANTY OF ANY KIND, EXPRESS OR '' @
     ''IMPLIED, INCLUDING BUT NOT LIMITED TO THE WARRANTIES OF '' @
     ''MERCHANTABILITY, FITNESS FOR A PARTICULAR PURPOSE AND NONINFRINGEMENT. '' @
     ''IN NO EVENT SHALL THE AUTHORS OR COPYRIGHT HOLDERS BE LIABLE FOR ANY '' @
     ''CLAIM, DAMAGES OR OTHER LIABILITY, WHETHER IN AN ACTION OF CONTRACT, '' @
     ''TORT OR OTHERWISE, ARISING FROM, OUT OF OR IN CONNECTION WITH THE '' @
     ''SOFTWARE OR THE USE OR OTHER DEALINGS IN THE SOFTWARE. ''\<close>

definition MIT_LICENSES :: "string list" where
  "MIT_LICENSES =
    [MIT_LICENSES_0, MIT_LICENSES_1, MIT_LICENSES_2, MIT_LICENSES_3]"

definition BSD_LICENSE_CONTENTS_0 :: string where
  \<open>BSD_LICENSE_CONTENTS_0 =
     ''Redistribution and use in source and binary forms, with or without '' @
     ''modification, are permitted provided that the following conditions are '' @
     ''met:''\<close>

definition BSD_LICENSE_CONTENTS_1 :: string where
  \<open>BSD_LICENSE_CONTENTS_1 =
     ''Redistributions of source code must retain the above copyright notice, '' @
     ''this list of conditions and the following disclaimer.''\<close>

definition BSD_LICENSE_CONTENTS_2 :: string where
  \<open>BSD_LICENSE_CONTENTS_2 =
     ''Redistributions in binary form must reproduce the above copyright '' @
     ''notice, this list of conditions and the following disclaimer in the '' @
     ''documentation and/or other materials provided with the distribution. ''\<close>

definition BSD_LICENSE_CONTENTS :: "string list" where
  "BSD_LICENSE_CONTENTS =
    [BSD_LICENSE_CONTENTS_0, BSD_LICENSE_CONTENTS_1,
     BSD_LICENSE_CONTENTS_2]"

definition BSD_LICENSE_3_CLAUSE_0 :: string where
  \<open>BSD_LICENSE_3_CLAUSE_0 =
     ''Neither the name of''\<close>

definition BSD_LICENSE_3_CLAUSE_1 :: string where
  \<open>BSD_LICENSE_3_CLAUSE_1 =
     ''nor the names of its contributors may be used to endorse or promote '' @
     ''products derived from this software without specific prior written '' @
     ''permission.''\<close>

definition BSD_LICENSE_3_CLAUSE :: "string list" where
  "BSD_LICENSE_3_CLAUSE =
    [BSD_LICENSE_3_CLAUSE_0, BSD_LICENSE_3_CLAUSE_1]"

definition BSD_LICENSE_4_CLAUSE_0 :: string where
  \<open>BSD_LICENSE_4_CLAUSE_0 =
     ''All advertising materials mentioning features or use of this software '' @
     ''must display the following acknowledgement''\<close>

definition BSD_LICENSE_4_CLAUSE :: "string list" where
  "BSD_LICENSE_4_CLAUSE =
    [BSD_LICENSE_4_CLAUSE_0]"

definition CC_SA_4_LICENSE_TITLE :: "string list" where
  \<open>CC_SA_4_LICENSE_TITLE =
    [''Creative Commons Attribution-ShareAlike 4.0 International'']\<close>

definition LGPL_3_LICENSE_TITLE :: "string list" where
  \<open>LGPL_3_LICENSE_TITLE =
    [''GNU LESSER GENERAL PUBLIC LICENSE Version 3'']\<close>

definition MPL_LICENSE_TITLES :: "string list" where
  \<open>MPL_LICENSE_TITLES =
    [''Mozilla Public License Version 2.0'',
     ''Mozilla Public License, version 2.0'']\<close>

definition UNIVERSAL_PERMISSIVE_LICENSE_TITLES :: "string list" where
  \<open>UNIVERSAL_PERMISSIVE_LICENSE_TITLES =
    [''The Universal Permissive License (UPL), Version 1.0'']\<close>

definition ISC_LICENSE_TITLE :: "string list" where
  \<open>ISC_LICENSE_TITLE =
    [''ISC License'']\<close>
subsection \<open>The classifier\<close>

text \<open>The two curly double quotes in UTF-8, which the classifier turns into \<^verbatim>\<open>"\<close>.\<close>

definition LEFT_QUOTE :: string where
  "LEFT_QUOTE = [CHR 0xE2, CHR 0x80, CHR 0x9C]"

definition RIGHT_QUOTE :: string where
  "RIGHT_QUOTE = [CHR 0xE2, CHR 0x80, CHR 0x9D]"

definition normalize_content :: "string \<Rightarrow> string" where
  \<open>normalize_content content =
     str_replace RIGHT_QUOTE ''"'' (str_replace LEFT_QUOTE ''"'' (collapse_ws content))\<close>

text \<open>\<^verbatim>\<open>any(sentence in content[0:n] for sentence in table)\<close> and the same with \<^verbatim>\<open>all\<close>.\<close>

definition any_in :: "string list \<Rightarrow> nat \<Rightarrow> string \<Rightarrow> bool" where
  "any_in table n content = list_ex (\<lambda>sentence. str_in sentence (take n content)) table"

definition all_in :: "string list \<Rightarrow> nat \<Rightarrow> string \<Rightarrow> bool" where
  "all_in table n content = list_all (\<lambda>sentence. str_in sentence (take n content)) table"

definition detect_license_summary :: "string \<Rightarrow> string" where
  "detect_license_summary raw =
     (let content = normalize_content raw in
      if any_in APACHE2_LICENSE_TITLES 1000 content then ''Apache-2.0''
      else if any_in MIT_LICENSES 1000 content then ''MIT''
      else if all_in BSD_LICENSE_CONTENTS 1000 content then
        (if all_in BSD_LICENSE_3_CLAUSE 1000 content then
           (if all_in BSD_LICENSE_4_CLAUSE 1000 content then ''BSD-4-Clause''
            else ''BSD-3-Clause'')
         else ''BSD-2-Clause'')
      else if any_in MPL_LICENSE_TITLES 300 content then ''MPL-2.0''
      else if any_in CC_SA_4_LICENSE_TITLE 3000 content then ''CC-BY-SA-4.0''
      else if any_in LGPL_3_LICENSE_TITLE 3000 content then ''LGPL-3.0''
      else if any_in UNIVERSAL_PERMISSIVE_LICENSE_TITLES 1500 content then ''UPL-1.0''
      else if any_in ISC_LICENSE_TITLE 1500 content then ''ISC''
      else ''UNKNOWN'')"

subsection \<open>Dependencies and their licenses\<close>

text \<open>
  A license dictionary, as \<^verbatim>\<open>gather_modules\<close> builds it. \<open>notice_files\<close> maps the path of
  each notice file to its contents; it is kept as an association list in the order in
  which the dictionary is iterated.
\<close>

record license =
  license_file :: string
  license_contents :: string
  license_summary :: string
  notice_files :: "(string \<times> string) list"

text \<open>
  A module dictionary, with the keys that the docstring of \<^verbatim>\<open>read_go_module_deps\<close> lists
  and the key \<^verbatim>\<open>licenses\<close> that \<^verbatim>\<open>gather_modules\<close> adds. An optional key is an option.
\<close>

record module =
  Dir :: string
  Path :: string
  Version :: "string option"
  Revision :: "string option"
  Overwrite_Path :: "string option"
  licenses :: "license list option"

text \<open>The dictionary of modules, from module path to module, in iteration order.\<close>

type_synonym modules = "(string \<times> module) list"

subsection \<open>Dependency enumeration\<close>

text \<open>
  The records that \<^verbatim>\<open>go list -deps -json\<close> prints, as far as the script reads them. The
  subprocess and the JSON decoder are outside the model: \<^verbatim>\<open>read_go_module_deps\<close> takes the
  decoded stream of packages.
\<close>

record go_replace =
  replace_Path :: string
  replace_Version :: "string option"

record go_module =
  mod_Path :: string
  mod_Dir :: string
  mod_Main :: bool
  mod_Version :: "string option"
  mod_Replace :: "go_replace option"

record go_package =
  pkg_Standard :: bool
  pkg_Module :: "go_module option"

text \<open>
  Lines 88 to 96, for a non-empty \<open>version\<close>: the suffix \<^verbatim>\<open>+incompatible\<close> is cut off,
  a version of three dash-separated parts is split into version and revision, and
  the version is stored unless it is \<^verbatim>\<open>v0.0.0\<close>.
\<close>

definition set_version :: "string \<Rightarrow> module \<Rightarrow> module" where
  "set_version version0 module =
     (let i = rfind version0 ''+incompatible'';
          version1 = (if i > 0 then take (nat i) version0 else version0);
          version_parts = split_on CHR ''-'' version1;
          (version, module) =
            (if length version_parts = 3
             then (version_parts ! 0, module\<lparr>Revision := Some (version_parts ! 2)\<rparr>)
             else (version1, module))
      in if version \<noteq> ''v0.0.0'' then module\<lparr>Version := Some version\<rparr> else module)"

text \<open>
  Lines 77 to 96 for one module of the stream. \<^verbatim>\<open>module["Version"]\<close> raises when the key
  is missing; \<^verbatim>\<open>del\<close> then removes it, so the result starts without a version.
\<close>

definition read_module :: "go_module \<Rightarrow> error + module" where
  "read_module m =
     (case mod_Version m of
        None \<Rightarrow> Inl (KeyError ''Version'')
      | Some v \<Rightarrow>
          let module = \<lparr>Dir = mod_Dir m, Path = mod_Path m, Version = None, Revision = None,
                          Overwrite_Path = None, licenses = None\<rparr>;
              (module, version) =
                (case mod_Replace m of
                   None \<Rightarrow> (module, Some v)
                 | Some replace \<Rightarrow>
                     ((if replace_Path replace \<noteq> mod_Path m
                       then module\<lparr>Overwrite_Path := Some (replace_Path replace)\<rparr>
                       else module),
                      replace_Version replace))
          in Inr (case version of
                    None \<Rightarrow> module
                  | Some version \<Rightarrow> if version = [] then module else set_version version module))"

fun read_packages :: "go_package list \<Rightarrow> modules \<Rightarrow> error + modules" where
  "read_packages [] modules = Inr modules"
| "read_packages (pkg # output) modules =
     (if pkg_Standard pkg then read_packages output modules
      else case pkg_Module pkg of
             None \<Rightarrow> Inl (KeyError ''Module'')
           | Some m \<Rightarrow>
               if mod_Main m then read_packages output modules
               else (case read_module m of
                       Inl e \<Rightarrow> Inl e
                     | Inr module \<Rightarrow>
                         read_packages output (AList.update (mod_Path m) module modules)))"

definition read_go_module_deps :: "go_package list \<Rightarrow> error + modules" where
  "read_go_module_deps output = read_packages output []"

subsection \<open>The source-hosting URL\<close>

text \<open>
  \<^verbatim>\<open>words[1]\<close> and \<^verbatim>\<open>words[2]\<close> raise \<^verbatim>\<open>IndexError\<close> when the path has too few segments;
  \<^verbatim>\<open>words[0]\<close> always exists.
\<close>

definition get_url :: "string \<Rightarrow> error + string" where
  "get_url repo =
     (let words = split_on CHR ''/'' repo in
      if hd words \<noteq> ''github.com'' then Inr repo
      else if length words < 2 then Inl IndexError
      else if length words < 3 then Inl IndexError
      else Inr (''https://github.com/'' @ words ! 1 @ ''/'' @ words ! 2))"

subsection \<open>The notice writer\<close>

text \<open>
  The file \<open>f\<close> is the text written so far and \<^verbatim>\<open>f.write(s)\<close> appends to it. The clock is
  a parameter: \<open>year\<close> is \<^verbatim>\<open>datetime.datetime.now().year\<close>.
\<close>

definition write_header :: "string \<Rightarrow> string \<Rightarrow> string \<Rightarrow> nat \<Rightarrow> string" where
  "write_header f beat copyright year =
     (let f = f @ beat @ ''\<newline>'';
          f = f @ ''Copyright 2014-'' @ str_of_nat year @ '' '' @ copyright @ ''\<newline>'';
          f = f @ ''\<newline>'';
          f = f @ ''This product includes software developed by The Apache Software \<newline>'' @
                  ''Foundation (http://www.apache.org/).\<newline>\<newline>'';
          f = f @ replicate 74 CHR ''='' @ ''\<newline>'';
          f = f @ ''Third party libraries used by the '' @ beat @ '' project:\<newline>'';
          f = f @ replicate 74 CHR ''='' @ ''\<newline>\<newline>''
      in f)"

text \<open>\<^verbatim>\<open>maybe_write(dict_, key, print_key)\<close>, given \<^verbatim>\<open>dict_.get(key)\<close> and the label printed.\<close>

definition maybe_write :: "string \<Rightarrow> string option \<Rightarrow> string \<Rightarrow> string" where
  "maybe_write f v label =
     (case v of None \<Rightarrow> f | Some x \<Rightarrow> f @ label @ '': '' @ x @ ''\<newline>'')"

text \<open>
  \<^verbatim>\<open>SKIP_NOTICE\<close> is the value of the option \<^verbatim>\<open>--skip-notice\<close>: the list \<^verbatim>\<open>[]\<close> by default,
  and the one string given on the command line otherwise, on which \<^verbatim>\<open>in\<close> is the
  substring test.
\<close>

datatype skip_notice = SkipList "string list" | SkipStr string

fun in_SKIP_NOTICE :: "string \<Rightarrow> skip_notice \<Rightarrow> bool" where
  "in_SKIP_NOTICE path (SkipList xs) = (path \<in> set xs)"
| "in_SKIP_NOTICE path (SkipStr s) = str_in path s"

text \<open>Lines 178 to 185: the banner and the header lines of one license entry.\<close>

definition write_lib_header :: "string \<Rightarrow> string \<Rightarrow> module \<Rightarrow> license \<Rightarrow> string" where
  "write_lib_header f key module lib =
     (let f = f @ ''\<newline>'' @ replicate 68 CHR ''-'' @ ''\<newline>'';
          f = f @ ''Dependency: '' @ key @ ''\<newline>'';
          f = maybe_write f (Version module) ''Version'';
          f = maybe_write f (Revision module) ''Revision'';
          f = maybe_write f (Overwrite_Path module) ''Overwrite'';
          f = f @ ''License type (autodetected): '' @ license_summary lib @ ''\<newline>'';
          f = f @ license_file lib @ '':\<newline>'';
          f = f @ replicate 68 CHR ''-'' @ ''\<newline>''
      in f)"

text \<open>Lines 196 to 199: each notice file under a banner with its base name.\<close>

fun write_notices :: "string \<Rightarrow> (string \<times> string) list \<Rightarrow> string" where
  "write_notices f [] = f"
| "write_notices f ((notice_file, notice_contents) # rest) =
     write_notices (f @ (''-------'' @ basename notice_file @ ''-----\<newline>'') @ notice_contents) rest"

text \<open>
  Lines 186 to 199: what follows the header lines. The \<^verbatim>\<open>continue\<close> of line 194 ends the
  iteration for this license after the stamp has been written.
\<close>

definition write_lib_body :: "skip_notice \<Rightarrow> string \<Rightarrow> license \<Rightarrow> string" where
  "write_lib_body SKIP_NOTICE f lib =
     (if license_summary lib \<noteq> ''Apache-2.0'' then f @ license_contents lib
      else
        let f = f @ ''Apache License 2.0\<newline>\<newline>'' in
        if in_SKIP_NOTICE (license_file lib) SKIP_NOTICE then f
        else write_notices f (notice_files lib))"

definition write_lib :: "skip_notice \<Rightarrow> string \<Rightarrow> string \<Rightarrow> module \<Rightarrow> license \<Rightarrow> string" where
  "write_lib SKIP_NOTICE f key module lib =
     write_lib_body SKIP_NOTICE (write_lib_header f key module lib) lib"

fun write_libs ::
  "skip_notice \<Rightarrow> string \<Rightarrow> string \<Rightarrow> module \<Rightarrow> license list \<Rightarrow> string" where
  "write_libs SKIP_NOTICE f key module [] = f"
| "write_libs SKIP_NOTICE f key module (lib # libs) =
     write_libs SKIP_NOTICE (write_lib SKIP_NOTICE f key module lib) key module libs"

text \<open>
  The loop over the sorted keys. Every key comes from \<open>modules\<close>, so \<^verbatim>\<open>modules[key]\<close>
  finds it; \<^verbatim>\<open>module.get("licenses", [])\<close> is the empty list when the key is missing.
\<close>

fun write_modules :: "skip_notice \<Rightarrow> string \<Rightarrow> modules \<Rightarrow> string list \<Rightarrow> string" where
  "write_modules SKIP_NOTICE f modules [] = f"
| "write_modules SKIP_NOTICE f modules (key # keys) =
     (case map_of modules key of
        None \<Rightarrow> write_modules SKIP_NOTICE f modules keys
      | Some module \<Rightarrow>
          write_modules SKIP_NOTICE
            (write_libs SKIP_NOTICE f key module
               (case licenses module of None \<Rightarrow> [] | Some libs \<Rightarrow> libs))
            modules keys)"

text \<open>\<^verbatim>\<open>sorted(modules, key=unicode.lower)\<close>: a stable sort of the keys.\<close>

definition sorted_keys :: "(string \<times> 'a) list \<Rightarrow> string list" where
  "sorted_keys d = sort_key lower (map fst d)"

definition write_notice_file ::
  "skip_notice \<Rightarrow> string \<Rightarrow> string \<Rightarrow> string \<Rightarrow> nat \<Rightarrow> modules \<Rightarrow> string" where
  "write_notice_file SKIP_NOTICE f beat copyright year modules =
     write_modules SKIP_NOTICE (write_header f beat copyright year) modules (sorted_keys modules)"

text \<open>
  The license entries in the order in which the two loops of lines 175 to 177 visit them:
  the keys in sorted order, and under each key the licenses of its module in list order.
\<close>

definition notice_entries :: "modules \<Rightarrow> (string \<times> module \<times> license) list" where
  "notice_entries modules =
     concat (map (\<lambda>key. case map_of modules key of
                          None \<Rightarrow> []
                        | Some module \<Rightarrow>
                            map (\<lambda>lib. (key, module, lib))
                              (case licenses module of None \<Rightarrow> [] | Some libs \<Rightarrow> libs))
                 (sorted_keys modules))"

subsection \<open>The tabular writer\<close>

text \<open>
  \<^verbatim>\<open>write_csv_file\<close> is duck-typed: it iterates over \<^verbatim>\<open>dependencies[key]\<close> and calls
  \<^verbatim>\<open>lib.get\<close> and \<^verbatim>\<open>lib[...]\<close> on whatever the iteration yields. Its argument is therefore
  modelled as a dynamically typed Python value, and each operation fails as Python does
  on a value of the wrong type.
\<close>

datatype pyval =
    PyNone
  | PyStr string
  | PyList "pyval list"
  | PyDict "(string \<times> pyval) list"

text \<open>\<^verbatim>\<open>for x in v\<close>: a list yields its elements, a dictionary its keys, a string its characters.\<close>

fun py_iter :: "pyval \<Rightarrow> error + pyval list" where
  "py_iter (PyList xs) = Inr xs"
| "py_iter (PyDict kvs) = Inr (map (\<lambda>(k, v). PyStr k) kvs)"
| "py_iter (PyStr s) = Inr (map (\<lambda>c. PyStr [c]) s)"
| "py_iter PyNone = Inl (Exception ''TypeError: object is not iterable'')"

text \<open>\<^verbatim>\<open>v.get(key, dflt)\<close>: only a dictionary has the method.\<close>

fun py_get :: "pyval \<Rightarrow> string \<Rightarrow> pyval \<Rightarrow> error + pyval" where
  "py_get (PyDict kvs) key dflt =
     Inr (case map_of kvs key of None \<Rightarrow> dflt | Some v \<Rightarrow> v)"
| "py_get v key dflt = Inl (AttributeError ''get'')"

text \<open>\<^verbatim>\<open>v[key]\<close> for a string \<open>key\<close>.\<close>

fun py_getitem :: "pyval \<Rightarrow> string \<Rightarrow> error + pyval" where
  "py_getitem (PyDict kvs) key =
     (case map_of kvs key of None \<Rightarrow> Inl (KeyError key) | Some v \<Rightarrow> Inr v)"
| "py_getitem v key = Inl (Exception ''TypeError: indices must be integers'')"

text \<open>
  The module and license dictionaries as Python values. Python 2 iterates a dictionary
  in an arbitrary order; the order chosen here starts with the two required keys.
\<close>

definition py_of_license :: "license \<Rightarrow> pyval" where
  "py_of_license lib =
     PyDict [(''license_file'', PyStr (license_file lib)),
             (''license_contents'', PyStr (license_contents lib)),
             (''license_summary'', PyStr (license_summary lib)),
             (''notice_files'', PyDict (map (\<lambda>(k, v). (k, PyStr v)) (notice_files lib)))]"

definition py_opt :: "string \<Rightarrow> 'a option \<Rightarrow> ('a \<Rightarrow> pyval) \<Rightarrow> (string \<times> pyval) list" where
  "py_opt key v f = (case v of None \<Rightarrow> [] | Some x \<Rightarrow> [(key, f x)])"

definition py_of_module :: "module \<Rightarrow> pyval" where
  "py_of_module module =
     PyDict ([(''Path'', PyStr (Path module)), (''Dir'', PyStr (Dir module))]
             @ py_opt ''Version'' (Version module) PyStr
             @ py_opt ''Revision'' (Revision module) PyStr
             @ py_opt ''Overwrite-Path'' (Overwrite_Path module) PyStr
             @ py_opt ''licenses'' (licenses module) (\<lambda>libs. PyList (map py_of_license libs)))"

definition py_of_modules :: "modules \<Rightarrow> (string \<times> pyval) list" where
  "py_of_modules modules = map (\<lambda>(key, module). (key, py_of_module module)) modules"

text \<open>
  The writer's state is the list of rows written so far; a run ends normally (\<open>None\<close>) or
  with the exception raised. The cells of a row are evaluated from left to right.
\<close>

type_synonym csv_rows = "pyval list list"

definition csv_row :: "string \<Rightarrow> pyval \<Rightarrow> error + pyval list" where
  "csv_row key lib =
     (case get_url key of
        Inl e \<Rightarrow> Inl e
      | Inr url \<Rightarrow>
     (case py_get lib ''version'' (PyStr '''') of
        Inl e \<Rightarrow> Inl e
      | Inr version \<Rightarrow>
     (case py_get lib ''revision'' (PyStr '''') of
        Inl e \<Rightarrow> Inl e
      | Inr revision \<Rightarrow>
     (case py_getitem lib ''license_summary'' of
        Inl e \<Rightarrow> Inl e
      | Inr summary \<Rightarrow> Inr [PyStr key, PyStr url, version, revision, summary]))))"

fun write_csv_libs :: "csv_rows \<Rightarrow> string \<Rightarrow> pyval list \<Rightarrow> csv_rows \<times> error option" where
  "write_csv_libs csvwriter key [] = (csvwriter, None)"
| "write_csv_libs csvwriter key (lib # libs) =
     (case csv_row key lib of
        Inl e \<Rightarrow> (csvwriter, Some e)
      | Inr row \<Rightarrow> write_csv_libs (csvwriter @ [row]) key libs)"

fun write_csv_keys ::
  "csv_rows \<Rightarrow> (string \<times> pyval) list \<Rightarrow> string list \<Rightarrow> csv_rows \<times> error option" where
  "write_csv_keys csvwriter dependencies [] = (csvwriter, None)"
| "write_csv_keys csvwriter dependencies (key # keys) =
     (case map_of dependencies key of
        None \<Rightarrow> (csvwriter, Some (KeyError key))
      | Some v \<Rightarrow>
          (case py_iter v of
             Inl e \<Rightarrow> (csvwriter, Some e)
           | Inr libs \<Rightarrow>
               (case write_csv_libs csvwriter key libs of
                  (csvwriter', Some e) \<Rightarrow> (csvwriter', Some e)
                | (csvwriter', None) \<Rightarrow> write_csv_keys csvwriter' dependencies keys)))"

definition csv_header :: "pyval list" where
  "csv_header = [PyStr ''name'', PyStr ''url'', PyStr ''version'', PyStr ''revision'',
                 PyStr ''license'']"

definition write_csv_file ::
  "csv_rows \<Rightarrow> (string \<times> pyval) list \<Rightarrow> csv_rows \<times> error option" where
  "write_csv_file csvwriter dependencies =
     write_csv_keys (csvwriter @ [csv_header]) dependencies (sorted_keys dependencies)"

subsection \<open>The two modes, and the check of the licenses\<close>

text \<open>
  \<^verbatim>\<open>create_notice\<close>, from the point where \<^verbatim>\<open>gather_modules\<close> has returned \<open>modules\<close>
  (the subprocess and the walk of the file system are outside the model). The result is
  the file written and either the exception raised or the modules returned.
\<close>

datatype report = NoticeFile string | CsvFile csv_rows

definition create_notice ::
  "skip_notice \<Rightarrow> string \<Rightarrow> string \<Rightarrow> nat \<Rightarrow> string option \<Rightarrow> modules
     \<Rightarrow> report \<times> (error + modules)" where
  "create_notice SKIP_NOTICE beat copyright year csvfile modules =
     (if csvfile = None \<or> csvfile = Some ''''
      then (NoticeFile (write_notice_file SKIP_NOTICE '''' beat copyright year modules),
            Inr modules)
      else (case write_csv_file [] (py_of_modules modules) of
              (rows, Some e) \<Rightarrow> (CsvFile rows, Inl e)
            | (rows, None) \<Rightarrow> (CsvFile rows, Inr modules)))"

definition ACCEPTED_LICENSES :: "string list" where
  "ACCEPTED_LICENSES =
    [''Apache-2.0'', ''MIT'', ''BSD-4-Clause'', ''BSD-3-Clause'',
     ''BSD-2-Clause'', ''MPL-2.0'', ''UPL-1.0'', ''ISC'']"

text \<open>Lines 402 to 405: the first license outside the accepted list raises.\<close>

fun check_licenses :: "string \<Rightarrow> license list \<Rightarrow> error + unit" where
  "check_licenses modpath [] = Inr ()"
| "check_licenses modpath (license # rest) =
     (if license_summary license \<notin> set ACCEPTED_LICENSES
      then Inl (Exception (''Dependency '' @ modpath @ '' has invalid ''
                           @ license_summary license @ '' license: '' @ license_file license))
      else check_licenses modpath rest)"

text \<open>
  Lines 398 to 405. \<^verbatim>\<open>not licenses\<close> holds for a missing key and for an empty list.
\<close>

fun check_modules :: "modules \<Rightarrow> error + unit" where
  "check_modules [] = Inr ()"
| "check_modules ((modpath, module) # rest) =
     (case licenses module of
        None \<Rightarrow> Inl (Exception (''Missing license in module: '' @ modpath))
      | Some libs \<Rightarrow>
          if libs = [] then Inl (Exception (''Missing license in module: '' @ modpath))
          else (case check_licenses modpath libs of
                  Inl e \<Rightarrow> Inl e
                | Inr u \<Rightarrow> check_modules rest))"

text \<open>
  The main program from line 395 on: the report is created first, and the modules are
  checked only when \<^verbatim>\<open>create_notice\<close> has returned.
\<close>

definition main ::
  "skip_notice \<Rightarrow> string \<Rightarrow> string \<Rightarrow> nat \<Rightarrow> string option \<Rightarrow> modules
     \<Rightarrow> report \<times> (error + unit)" where
  "main SKIP_NOTICE beat copyright year csvfile gathered =
     (case create_notice SKIP_NOTICE beat copyright year csvfile gathered of
        (written, Inl e) \<Rightarrow> (written, Inl e)
      | (written, Inr modules) \<Rightarrow> (written, check_modules modules))"

subsection \<open>Texts that differ only in their white space\<close>

text \<open>
  Two texts differ only in the run-length of white space when one is obtained from the
  other by replacing runs of white space by runs of white space: the other characters
  are the same, in the same order, and white space stands at the same places.
\<close>

inductive ws_reformat :: "string \<Rightarrow> string \<Rightarrow> bool" where
  Nil: "ws_reformat [] []"
| Char: "\<not> is_space c \<Longrightarrow> ws_reformat xs ys \<Longrightarrow> ws_reformat (c # xs) (c # ys)"
| Run: "u \<noteq> [] \<Longrightarrow> v \<noteq> [] \<Longrightarrow> list_all is_space u \<Longrightarrow> list_all is_space v \<Longrightarrow>
        ws_reformat xs ys \<Longrightarrow> ws_reformat (u @ xs) (v @ ys)"

subsection \<open>Concrete inputs\<close>

text \<open>A module with a version, and two license entries of it.\<close>

definition example_module :: module where
  "example_module =
     \<lparr>Dir = ''/go/pkg/mod/github.com/example/foo@v1.0.0'', Path = ''github.com/example/foo'',
      Version = Some ''v1.0.0'', Revision = None, Overwrite_Path = None, licenses = None\<rparr>"

definition apache_lib :: license where
  "apache_lib =
     \<lparr>license_file = ''github.com/example/foo/LICENSE'',
      license_contents = ''Apache License 2.0 TERMS AND CONDITIONS'',
      license_summary = ''Apache-2.0'',
      notice_files = [(''github.com/example/foo/NOTICE'', ''Example Foo\<newline>'')]\<rparr>"

definition mit_lib :: license where
  "mit_lib =
     \<lparr>license_file = ''github.com/example/foo/LICENSE'',
      license_contents = ''Permission is hereby granted'',
      license_summary = ''MIT'',
      notice_files = []\<rparr>"

definition unknown_lib :: license where
  "unknown_lib =
     \<lparr>license_file = ''github.com/example/foo/LICENSE'',
      license_contents = ''All rights reserved.'',
      license_summary = ''UNKNOWN'',
      notice_files = []\<rparr>"

text \<open>
  A dictionary of two modules. \<^verbatim>\<open>github.com/example/foo\<close> has an Apache license with a
  notice file and an MIT license; \<^verbatim>\<open>github.com/Zeta/zeta\<close>, which sorts after it only when
  the case of the letters is ignored, has one license. A dictionary with the Apache
  license alone.
\<close>

definition foo_module :: module where
  "foo_module = example_module\<lparr>licenses := Some [apache_lib, mit_lib]\<rparr>"

definition zeta_lib :: license where
  "zeta_lib =
     \<lparr>license_file = ''github.com/Zeta/zeta/COPYING'',
      license_contents = ''ISC License'',
      license_summary = ''ISC'',
      notice_files = []\<rparr>"

definition zeta_module :: module where
  "zeta_module =
     \<lparr>Dir = ''/go/pkg/mod/github.com/!zeta/zeta@v0.1.0'', Path = ''github.com/Zeta/zeta'',
      Version = Some ''v0.1.0'', Revision = None, Overwrite_Path = None,
      licenses = Some [zeta_lib]\<rparr>"

definition two_modules :: modules where
  "two_modules =
     [(''github.com/Zeta/zeta'', zeta_module), (''github.com/example/foo'', foo_module)]"

definition apache_module :: module where
  "apache_module = example_module\<lparr>licenses := Some [apache_lib]\<rparr>"

definition apache_modules :: modules where
  "apache_modules = [(''github.com/example/foo'', apache_module)]"

text \<open>The value of \<^verbatim>\<open>--skip-notice\<close> that names the license file of \<^verbatim>\<open>github.com/example/foo\<close>.\<close>

definition skip_foo :: skip_notice where
  "skip_foo = SkipStr ''github.com/example/foo/LICENSE''"

text \<open>
  License texts: the three BSD core clauses; the same with the no-endorsement clause; the
  same with the advertising clause as well; and the texts of a dual license, where the
  title of the Apache license stands before the BSD clauses or before an MIT phrasing.
\<close>

definition bsd2_text :: string where
  "bsd2_text =
     BSD_LICENSE_CONTENTS_0 @ '' '' @ BSD_LICENSE_CONTENTS_1 @ '' '' @ BSD_LICENSE_CONTENTS_2"

definition bsd3_text :: string where
  "bsd3_text =
     bsd2_text @ BSD_LICENSE_3_CLAUSE_0 @ '' the copyright holder '' @ BSD_LICENSE_3_CLAUSE_1"

definition bsd4_text :: string where
  "bsd4_text = bsd3_text @ '' '' @ BSD_LICENSE_4_CLAUSE_0"

definition apache_bsd_text :: string where
  "apache_bsd_text = ''Apache License 2.0 '' @ bsd2_text"

definition apache_mit_text :: string where
  "apache_mit_text = ''Apache License 2.0 '' @ MIT_LICENSES_1"

text \<open>A license file with the second MIT phrasing, laid out in lines as the source has it.\<close>

definition mit_license_text :: string where
  "mit_license_text =
     ''Copyright (c) Example Authors\<newline>\<newline>'' @
     ''Permission to use, copy, modify, and distribute this software for any\<newline>'' @
     ''purpose with or without fee is hereby granted, provided that the above\<newline>'' @
     ''copyright notice and this permission notice appear in all copies.\<newline>''"

text \<open>The dependency of the end-to-end scenario, with that file as its only license.\<close>

definition foo_license :: license where
  "foo_license =
     \<lparr>license_file = ''github.com/example/foo/LICENSE'',
      license_contents = mit_license_text,
      license_summary = detect_license_summary mit_license_text,
      notice_files = []\<rparr>"

definition foo_modules :: modules where
  "foo_modules =
     [(''github.com/example/foo'',
       \<lparr>Dir = ''/go/pkg/mod/github.com/example/foo'', Path = ''github.com/example/foo'',
        Version = None, Revision = None, Overwrite_Path = None,
        licenses = Some [foo_license]\<rparr>)]"

subsection \<open>White space: claim C5\<close>

lemma collapse_ws_run:
  "u \<noteq> [] \<Longrightarrow> list_all is_space u \<Longrightarrow>
     collapse_ws (u @ xs) = CHR '' '' # collapse_ws (dropWhile is_space xs)"
  by (cases u) (auto simp: list_all_iff dropWhile_append2)

lemma collapse_ws_dropWhile:
  "collapse_ws (dropWhile is_space xs)
     = (if xs \<noteq> [] \<and> is_space (hd xs) then tl (collapse_ws xs) else collapse_ws xs)"
  by (cases xs) auto

lemma collapse_ws_head:
  "(xs \<noteq> [] \<and> is_space (hd xs)) \<longleftrightarrow> (collapse_ws xs \<noteq> [] \<and> hd (collapse_ws xs) = CHR '' '')"
  by (cases xs) (auto simp: is_space_def)

lemma collapse_ws_dropWhile_cong:
  assumes "collapse_ws xs = collapse_ws ys"
  shows "collapse_ws (dropWhile is_space xs) = collapse_ws (dropWhile is_space ys)"
proof -
  have "(xs \<noteq> [] \<and> is_space (hd xs)) \<longleftrightarrow> (ys \<noteq> [] \<and> is_space (hd ys))"
    unfolding collapse_ws_head assms ..
  then show ?thesis
    unfolding collapse_ws_dropWhile using assms by simp
qed

lemma ws_reformat_collapse: "ws_reformat a b \<Longrightarrow> collapse_ws a = collapse_ws b"
proof (induction rule: ws_reformat.induct)
  case Nil
  show ?case by simp
next
  case (Char c xs ys)
  then show ?case by simp
next
  case (Run u v xs ys)
  have "collapse_ws (dropWhile is_space xs) = collapse_ws (dropWhile is_space ys)"
    using Run.IH by (rule collapse_ws_dropWhile_cong)
  moreover have "collapse_ws (u @ xs) = CHR '' '' # collapse_ws (dropWhile is_space xs)"
    using Run.hyps(1,3) by (rule collapse_ws_run)
  moreover have "collapse_ws (v @ ys) = CHR '' '' # collapse_ws (dropWhile is_space ys)"
    using Run.hyps(2,4) by (rule collapse_ws_run)
  ultimately show ?case by simp
qed

text \<open>
  Claim C5. Two texts that differ only in the run-length of white space (each run of
  spaces, tabs and line breaks replaced by another run) get the same identifier from
  \<^verbatim>\<open>detect_license_summary\<close>.
\<close>

theorem whitespace_invariance:
  "ws_reformat a b \<Longrightarrow> detect_license_summary a = detect_license_summary b"
proof -
  assume "ws_reformat a b"
  then have "collapse_ws a = collapse_ws b"
    by (rule ws_reformat_collapse)
  then have "normalize_content a = normalize_content b"
    by (simp only: normalize_content_def)
  then show ?thesis
    by (simp only: detect_license_summary_def)
qed

theorem whitespace_invariance_witness:
  "ws_reformat ''ISC  License\<newline>'' ''ISC License ''
   \<and> detect_license_summary ''ISC  License\<newline>'' = detect_license_summary ''ISC License ''"
proof -
  have 1: "ws_reformat ''\<newline>'' '' ''"
    using ws_reformat.Run [of "''\<newline>''" "'' ''" "[]" "[]"] ws_reformat.Nil
    by (simp add: is_space_def)
  have 2: "ws_reformat ''License\<newline>'' ''License ''"
    using 1 by (auto intro!: ws_reformat.Char simp: is_space_def)
  have 3: "ws_reformat (''  '' @ ''License\<newline>'') ('' '' @ ''License '')"
    using ws_reformat.Run [OF _ _ _ _ 2, of "''  ''" "'' ''"] by (simp add: is_space_def)
  have 4: "ws_reformat ''ISC  License\<newline>'' ''ISC License ''"
    using 3 by (auto intro!: ws_reformat.Char simp: is_space_def)
  show ?thesis
    using 4 whitespace_invariance [OF 4] by simp
qed

subsection \<open>The classifier on the concrete texts\<close>

text \<open>
  The concrete texts are already in normal form (the license file \<open>mit_license_text\<close>
  apart), they fit into the window of 1000 characters, and some characters do not occur
  in them. These facts are obtained by evaluation.
\<close>

lemma normalize_bsd2: "normalize_content bsd2_text = bsd2_text" by code_simp
lemma normalize_bsd3: "normalize_content bsd3_text = bsd3_text" by code_simp
lemma normalize_bsd4: "normalize_content bsd4_text = bsd4_text" by code_simp
lemma normalize_apache_bsd: "normalize_content apache_bsd_text = apache_bsd_text" by code_simp
lemma normalize_apache_mit: "normalize_content apache_mit_text = apache_mit_text" by code_simp
lemma normalize_mit_license:
  "normalize_content mit_license_text = ''Copyright (c) Example Authors '' @ MIT_LICENSES_1 @ '' ''"
  by code_simp

lemma length_bsd4: "length bsd4_text \<le> 1000" by code_simp
lemma length_apache_bsd: "length apache_bsd_text \<le> 1000" by code_simp
lemma length_apache_mit: "length apache_mit_text \<le> 1000" by code_simp
lemma length_mit_license: "length (normalize_content mit_license_text) \<le> 1000"
  unfolding normalize_mit_license by code_simp

lemma chars_bsd4: "CHR ''P'' \<notin> set bsd4_text \<and> CHR ''2'' \<notin> set bsd4_text" by code_simp
lemma chars_bsd3: "CHR ''A'' \<notin> set bsd3_text" by code_simp
lemma chars_bsd2: "CHR ''N'' \<notin> set bsd2_text" by code_simp
lemma chars_mit_license: "CHR ''2'' \<notin> set mit_license_text" by code_simp

lemma chars_APACHE2: "list_all (\<lambda>s. CHR ''2'' \<in> set s) APACHE2_LICENSE_TITLES" by code_simp
lemma chars_MIT: "list_all (\<lambda>s. CHR ''P'' \<in> set s) MIT_LICENSES" by code_simp
lemma chars_BSD3: "CHR ''N'' \<in> set BSD_LICENSE_3_CLAUSE_0" by code_simp
lemma chars_BSD4: "CHR ''A'' \<in> set BSD_LICENSE_4_CLAUSE_0" by code_simp

text \<open>
  A sentence with a character that the window lacks is not in the window; a sentence that
  is one of the pieces a text is built from is in the text.
\<close>

lemma not_str_in_char: "c \<in> set s \<Longrightarrow> c \<notin> set w \<Longrightarrow> \<not> str_in s (take n w)"
  using set_mono_sublist [of s "take n w"] set_take_subset [of n w] by auto

lemma not_any_in_char:
  "list_all (\<lambda>s. c \<in> set s) table \<Longrightarrow> c \<notin> set w \<Longrightarrow> \<not> any_in table n w"
  by (auto simp: any_in_def list_all_iff list_ex_iff dest: not_str_in_char)

lemma not_all_in_char:
  "s \<in> set table \<Longrightarrow> c \<in> set s \<Longrightarrow> c \<notin> set w \<Longrightarrow> \<not> all_in table n w"
  by (auto simp: all_in_def list_all_iff dest: not_str_in_char)

lemma str_in_here: "str_in s (s @ r)"
  by (rule sublist_append_rightI)

lemma str_in_later: "str_in s r \<Longrightarrow> str_in s (p @ r)"
  by (simp add: sublist_append)

lemma str_in_front: "str_in s p \<Longrightarrow> str_in s (p @ r)"
  by (simp add: sublist_append)

lemma str_in_self: "str_in s s"
  by simp

lemma length_bsd3: "length bsd3_text \<le> 1000"
  using length_bsd4 by (simp add: bsd4_text_def)

lemma length_bsd2: "length bsd2_text \<le> 1000"
  using length_bsd3 by (simp add: bsd3_text_def)

lemma core_in_bsd2:
  "str_in BSD_LICENSE_CONTENTS_0 bsd2_text" "str_in BSD_LICENSE_CONTENTS_1 bsd2_text"
  "str_in BSD_LICENSE_CONTENTS_2 bsd2_text"
  unfolding bsd2_text_def by (rule str_in_here str_in_self | rule str_in_later)+

lemma all_in_core_bsd2: "all_in BSD_LICENSE_CONTENTS 1000 bsd2_text"
  using length_bsd2 by (simp add: all_in_def BSD_LICENSE_CONTENTS_def core_in_bsd2)

lemma all_in_core_bsd3: "all_in BSD_LICENSE_CONTENTS 1000 bsd3_text"
  using length_bsd3 unfolding bsd3_text_def
  by (simp add: all_in_def BSD_LICENSE_CONTENTS_def core_in_bsd2 str_in_front)

lemma all_in_core_bsd4: "all_in BSD_LICENSE_CONTENTS 1000 bsd4_text"
  using length_bsd4 unfolding bsd4_text_def bsd3_text_def
  by (simp add: all_in_def BSD_LICENSE_CONTENTS_def core_in_bsd2 str_in_front)

lemma endorse_in_bsd3:
  "str_in BSD_LICENSE_3_CLAUSE_0 bsd3_text" "str_in BSD_LICENSE_3_CLAUSE_1 bsd3_text"
  unfolding bsd3_text_def by (rule str_in_here str_in_self | rule str_in_later)+

lemma all_in_endorse_bsd3: "all_in BSD_LICENSE_3_CLAUSE 1000 bsd3_text"
  using length_bsd3 by (simp add: all_in_def BSD_LICENSE_3_CLAUSE_def endorse_in_bsd3)

lemma all_in_endorse_bsd4: "all_in BSD_LICENSE_3_CLAUSE 1000 bsd4_text"
  using length_bsd4 unfolding bsd4_text_def
  by (simp add: all_in_def BSD_LICENSE_3_CLAUSE_def endorse_in_bsd3 str_in_front)

lemma all_in_advert_bsd4: "all_in BSD_LICENSE_4_CLAUSE 1000 bsd4_text"
proof -
  have "str_in BSD_LICENSE_4_CLAUSE_0 bsd4_text"
    unfolding bsd4_text_def by (rule str_in_here str_in_self | rule str_in_later)+
  then show ?thesis
    using length_bsd4 by (simp add: all_in_def BSD_LICENSE_4_CLAUSE_def)
qed

lemma chars_bsd3': "CHR ''P'' \<notin> set bsd3_text \<and> CHR ''2'' \<notin> set bsd3_text"
  using chars_bsd4 by (simp add: bsd4_text_def)

lemma chars_bsd2': "CHR ''P'' \<notin> set bsd2_text \<and> CHR ''2'' \<notin> set bsd2_text"
  using chars_bsd3' by (simp add: bsd3_text_def)

lemma not_endorse_bsd2: "\<not> all_in BSD_LICENSE_3_CLAUSE 1000 bsd2_text"
  using chars_BSD3 chars_bsd2
  by (rule not_all_in_char [rotated]) (simp add: BSD_LICENSE_3_CLAUSE_def)

lemma not_advert_bsd3: "\<not> all_in BSD_LICENSE_4_CLAUSE 1000 bsd3_text"
  using chars_BSD4 chars_bsd3
  by (rule not_all_in_char [rotated]) (simp add: BSD_LICENSE_4_CLAUSE_def)

lemma detect_apache:
  "any_in APACHE2_LICENSE_TITLES 1000 (normalize_content raw) \<Longrightarrow>
     detect_license_summary raw = ''Apache-2.0''"
  by (simp add: detect_license_summary_def)

lemma detect_mit:
  "\<not> any_in APACHE2_LICENSE_TITLES 1000 (normalize_content raw) \<Longrightarrow>
   any_in MIT_LICENSES 1000 (normalize_content raw) \<Longrightarrow>
     detect_license_summary raw = ''MIT''"
  by (simp add: detect_license_summary_def)

lemma detect_bsd:
  "\<not> any_in APACHE2_LICENSE_TITLES 1000 (normalize_content raw) \<Longrightarrow>
   \<not> any_in MIT_LICENSES 1000 (normalize_content raw) \<Longrightarrow>
   all_in BSD_LICENSE_CONTENTS 1000 (normalize_content raw) \<Longrightarrow>
     detect_license_summary raw =
       (if all_in BSD_LICENSE_3_CLAUSE 1000 (normalize_content raw)
        then (if all_in BSD_LICENSE_4_CLAUSE 1000 (normalize_content raw)
              then ''BSD-4-Clause'' else ''BSD-3-Clause'')
        else ''BSD-2-Clause'')"
  by (simp add: detect_license_summary_def)

subsection \<open>The priority order of the classifier: claims C1 and C2\<close>

lemma no_apache_bsd:
  "\<not> any_in APACHE2_LICENSE_TITLES 1000 bsd2_text"
  "\<not> any_in APACHE2_LICENSE_TITLES 1000 bsd3_text"
  "\<not> any_in APACHE2_LICENSE_TITLES 1000 bsd4_text"
  using chars_bsd2' chars_bsd3' chars_bsd4 by (simp_all add: not_any_in_char [OF chars_APACHE2])

lemma no_mit_bsd:
  "\<not> any_in MIT_LICENSES 1000 bsd2_text"
  "\<not> any_in MIT_LICENSES 1000 bsd3_text"
  "\<not> any_in MIT_LICENSES 1000 bsd4_text"
  using chars_bsd2' chars_bsd3' chars_bsd4 by (simp_all add: not_any_in_char [OF chars_MIT])

text \<open>
  Claim C1 says that every text with the three BSD core clauses in the window is classified
  in the BSD family. It does not hold: the titles of the Apache license and the MIT
  phrasings are tested first, so a text that starts with \<^verbatim>\<open>Apache License 2.0\<close> and goes on
  with the BSD core clauses (and without the no-endorsement clause) is \<^verbatim>\<open>Apache-2.0\<close>,
  not \<^verbatim>\<open>BSD-2-Clause\<close>.
\<close>

theorem bsd_family_counterexample:
  "all_in BSD_LICENSE_CONTENTS 1000 (normalize_content apache_bsd_text)
   \<and> \<not> all_in BSD_LICENSE_3_CLAUSE 1000 (normalize_content apache_bsd_text)
   \<and> detect_license_summary apache_bsd_text = ''Apache-2.0''
   \<and> detect_license_summary apache_bsd_text \<noteq> ''BSD-2-Clause''"
proof -
  have "str_in BSD_LICENSE_CONTENTS_0 apache_bsd_text"
    "str_in BSD_LICENSE_CONTENTS_1 apache_bsd_text"
    "str_in BSD_LICENSE_CONTENTS_2 apache_bsd_text"
    unfolding apache_bsd_text_def by (rule str_in_later, rule core_in_bsd2)+
  then have core: "all_in BSD_LICENSE_CONTENTS 1000 apache_bsd_text"
    using length_apache_bsd by (simp add: all_in_def BSD_LICENSE_CONTENTS_def)
  have "CHR ''N'' \<notin> set apache_bsd_text"
    using chars_bsd2 by (simp add: apache_bsd_text_def)
  with chars_BSD3 have endorse: "\<not> all_in BSD_LICENSE_3_CLAUSE 1000 apache_bsd_text"
    by (rule not_all_in_char [rotated]) (simp add: BSD_LICENSE_3_CLAUSE_def)
  have "str_in ''Apache License 2.0'' apache_bsd_text"
    unfolding apache_bsd_text_def using str_in_here [of "''Apache License 2.0''" "'' '' @ bsd2_text"]
    by simp
  then have "any_in APACHE2_LICENSE_TITLES 1000 (normalize_content apache_bsd_text)"
    using length_apache_bsd by (simp add: normalize_apache_bsd any_in_def APACHE2_LICENSE_TITLES_def)
  then have "detect_license_summary apache_bsd_text = ''Apache-2.0''"
    by (rule detect_apache)
  with core endorse show ?thesis
    by (simp add: normalize_apache_bsd)
qed

text \<open>
  Claim C1, amended. For every license text whose window (the first 1000 characters after
  white space has been collapsed and curly quotes replaced) contains all three BSD core
  clause literals, and contains neither a title of the Apache license nor an MIT
  phrasing, \<^verbatim>\<open>detect_license_summary\<close> returns \<^verbatim>\<open>BSD-3-Clause\<close> when the no-endorsement
  literals are in the window and the advertising literal is not, \<^verbatim>\<open>BSD-4-Clause\<close> when
  both are, and \<^verbatim>\<open>BSD-2-Clause\<close> when the no-endorsement literals are not all there.
\<close>

theorem bsd_family_classification:
  assumes "all_in BSD_LICENSE_CONTENTS 1000 (normalize_content raw)"
    and "\<not> any_in APACHE2_LICENSE_TITLES 1000 (normalize_content raw)"
    and "\<not> any_in MIT_LICENSES 1000 (normalize_content raw)"
  shows "(all_in BSD_LICENSE_3_CLAUSE 1000 (normalize_content raw)
          \<and> \<not> all_in BSD_LICENSE_4_CLAUSE 1000 (normalize_content raw)
          \<longrightarrow> detect_license_summary raw = ''BSD-3-Clause'')
       \<and> (all_in BSD_LICENSE_3_CLAUSE 1000 (normalize_content raw)
          \<and> all_in BSD_LICENSE_4_CLAUSE 1000 (normalize_content raw)
          \<longrightarrow> detect_license_summary raw = ''BSD-4-Clause'')
       \<and> (\<not> all_in BSD_LICENSE_3_CLAUSE 1000 (normalize_content raw)
          \<longrightarrow> detect_license_summary raw = ''BSD-2-Clause'')"
  using detect_bsd [OF assms(2) assms(3) assms(1)] by simp

theorem bsd_family_classification_witness:
  "all_in BSD_LICENSE_CONTENTS 1000 (normalize_content bsd3_text)
   \<and> \<not> any_in APACHE2_LICENSE_TITLES 1000 (normalize_content bsd3_text)
   \<and> \<not> any_in MIT_LICENSES 1000 (normalize_content bsd3_text)
   \<and> all_in BSD_LICENSE_3_CLAUSE 1000 (normalize_content bsd3_text)
   \<and> \<not> all_in BSD_LICENSE_4_CLAUSE 1000 (normalize_content bsd3_text)
   \<and> detect_license_summary bsd3_text = ''BSD-3-Clause''
   \<and> all_in BSD_LICENSE_CONTENTS 1000 (normalize_content bsd4_text)
   \<and> \<not> any_in APACHE2_LICENSE_TITLES 1000 (normalize_content bsd4_text)
   \<and> \<not> any_in MIT_LICENSES 1000 (normalize_content bsd4_text)
   \<and> all_in BSD_LICENSE_3_CLAUSE 1000 (normalize_content bsd4_text)
   \<and> all_in BSD_LICENSE_4_CLAUSE 1000 (normalize_content bsd4_text)
   \<and> detect_license_summary bsd4_text = ''BSD-4-Clause''
   \<and> all_in BSD_LICENSE_CONTENTS 1000 (normalize_content bsd2_text)
   \<and> \<not> any_in APACHE2_LICENSE_TITLES 1000 (normalize_content bsd2_text)
   \<and> \<not> any_in MIT_LICENSES 1000 (normalize_content bsd2_text)
   \<and> \<not> all_in BSD_LICENSE_3_CLAUSE 1000 (normalize_content bsd2_text)
   \<and> detect_license_summary bsd2_text = ''BSD-2-Clause''"
proof -
  have h3: "all_in BSD_LICENSE_CONTENTS 1000 (normalize_content bsd3_text)"
    "\<not> any_in APACHE2_LICENSE_TITLES 1000 (normalize_content bsd3_text)"
    "\<not> any_in MIT_LICENSES 1000 (normalize_content bsd3_text)"
    by (simp_all add: normalize_bsd3 all_in_core_bsd3 no_apache_bsd no_mit_bsd)
  have h4: "all_in BSD_LICENSE_CONTENTS 1000 (normalize_content bsd4_text)"
    "\<not> any_in APACHE2_LICENSE_TITLES 1000 (normalize_content bsd4_text)"
    "\<not> any_in MIT_LICENSES 1000 (normalize_content bsd4_text)"
    by (simp_all add: normalize_bsd4 all_in_core_bsd4 no_apache_bsd no_mit_bsd)
  have h2: "all_in BSD_LICENSE_CONTENTS 1000 (normalize_content bsd2_text)"
    "\<not> any_in APACHE2_LICENSE_TITLES 1000 (normalize_content bsd2_text)"
    "\<not> any_in MIT_LICENSES 1000 (normalize_content bsd2_text)"
    by (simp_all add: normalize_bsd2 all_in_core_bsd2 no_apache_bsd no_mit_bsd)
  have c3: "all_in BSD_LICENSE_3_CLAUSE 1000 (normalize_content bsd3_text)"
    "\<not> all_in BSD_LICENSE_4_CLAUSE 1000 (normalize_content bsd3_text)"
    by (simp_all add: normalize_bsd3 all_in_endorse_bsd3 not_advert_bsd3)
  have c4: "all_in BSD_LICENSE_3_CLAUSE 1000 (normalize_content bsd4_text)"
    "all_in BSD_LICENSE_4_CLAUSE 1000 (normalize_content bsd4_text)"
    by (simp_all add: normalize_bsd4 all_in_endorse_bsd4 all_in_advert_bsd4)
  have c2: "\<not> all_in BSD_LICENSE_3_CLAUSE 1000 (normalize_content bsd2_text)"
    by (simp add: normalize_bsd2 not_endorse_bsd2)
  show ?thesis
    using h3 h4 h2 c3 c4 c2
      bsd_family_classification [OF h3] bsd_family_classification [OF h4]
      bsd_family_classification [OF h2]
    by simp
qed

text \<open>
  Claim C2 says that a text with an MIT phrasing in the window is \<^verbatim>\<open>MIT\<close> whatever
  surrounds the phrase. It does not hold: the titles of the Apache license are tested
  first, so the phrase after the title \<^verbatim>\<open>Apache License 2.0\<close> is \<^verbatim>\<open>Apache-2.0\<close>.
\<close>

theorem mit_counterexample:
  "any_in MIT_LICENSES 1000 (normalize_content apache_mit_text)
   \<and> detect_license_summary apache_mit_text = ''Apache-2.0''
   \<and> detect_license_summary apache_mit_text \<noteq> ''MIT''"
proof -
  have "str_in MIT_LICENSES_1 apache_mit_text"
    unfolding apache_mit_text_def by (rule str_in_here str_in_self | rule str_in_later)+
  then have mit: "any_in MIT_LICENSES 1000 apache_mit_text"
    using length_apache_mit by (simp add: any_in_def MIT_LICENSES_def)
  have "str_in ''Apache License 2.0'' apache_mit_text"
    unfolding apache_mit_text_def
    using str_in_here [of "''Apache License 2.0''" "'' '' @ MIT_LICENSES_1"] by simp
  then have "any_in APACHE2_LICENSE_TITLES 1000 (normalize_content apache_mit_text)"
    using length_apache_mit by (simp add: normalize_apache_mit any_in_def APACHE2_LICENSE_TITLES_def)
  then have "detect_license_summary apache_mit_text = ''Apache-2.0''"
    by (rule detect_apache)
  with mit show ?thesis
    by (simp add: normalize_apache_mit)
qed

text \<open>
  Claim C2, amended. For every license text whose window contains one of the four MIT
  phrasings and no title of the Apache license, \<^verbatim>\<open>detect_license_summary\<close> returns
  \<^verbatim>\<open>MIT\<close>, whatever else the text contains and however long it is.
\<close>

theorem mit_classification:
  "any_in MIT_LICENSES 1000 (normalize_content raw) \<Longrightarrow>
   \<not> any_in APACHE2_LICENSE_TITLES 1000 (normalize_content raw) \<Longrightarrow>
     detect_license_summary raw = ''MIT''"
  by (simp add: detect_license_summary_def)

lemma mit_license_window:
  "any_in MIT_LICENSES 1000 (normalize_content mit_license_text)"
  "\<not> any_in APACHE2_LICENSE_TITLES 1000 (normalize_content mit_license_text)"
proof -
  have "str_in MIT_LICENSES_1 (normalize_content mit_license_text)"
    unfolding normalize_mit_license by (rule str_in_here str_in_self | rule str_in_later)+
  then show "any_in MIT_LICENSES 1000 (normalize_content mit_license_text)"
    using length_mit_license by (simp add: any_in_def MIT_LICENSES_def)
  have "set (normalize_content mit_license_text) \<subseteq> set mit_license_text \<union> {CHR '' ''}"
    unfolding normalize_mit_license by code_simp
  then have "CHR ''2'' \<notin> set (normalize_content mit_license_text)"
    using chars_mit_license by auto
  then show "\<not> any_in APACHE2_LICENSE_TITLES 1000 (normalize_content mit_license_text)"
    by (rule not_any_in_char [OF chars_APACHE2])
qed

theorem mit_classification_witness:
  "any_in MIT_LICENSES 1000 (normalize_content mit_license_text)
   \<and> \<not> any_in APACHE2_LICENSE_TITLES 1000 (normalize_content mit_license_text)
   \<and> detect_license_summary mit_license_text = ''MIT''"
  using mit_license_window mit_classification [OF mit_license_window] by simp


subsection \<open>Version normalisation: claim C8\<close>

lemma rfind_pseudo: "rfind ''v1.2.3-0.20200101000000-abcdef123456'' ''+incompatible'' = -1"
  by code_simp

lemma split_pseudo:
  "split_on CHR ''-'' ''v1.2.3-0.20200101000000-abcdef123456''
     = [''v1.2.3'', ''0.20200101000000'', ''abcdef123456'']"
  by simp

lemma rfind_zero: "rfind ''v0.0.0'' ''+incompatible'' = -1"
  by code_simp

lemma set_version_pseudo:
  "set_version ''v1.2.3-0.20200101000000-abcdef123456'' module
     = module\<lparr>Revision := Some ''abcdef123456'', Version := Some ''v1.2.3''\<rparr>"
  unfolding set_version_def rfind_pseudo by (simp add: split_pseudo)

lemma set_version_zero: "set_version ''v0.0.0'' module = module"
  unfolding set_version_def rfind_zero by simp

text \<open>
  Claim C8. During dependency enumeration a module whose version is the pseudo-version
  \<^verbatim>\<open>v1.2.3-0.20200101000000-abcdef123456\<close> is recorded with version \<^verbatim>\<open>v1.2.3\<close> and revision
  \<^verbatim>\<open>abcdef123456\<close>, and a module whose version is \<^verbatim>\<open>v0.0.0\<close> is recorded without a version
  field: the field deleted at line 80 is not set again.
\<close>

theorem version_normalization:
  "read_module (m\<lparr>mod_Version := Some ''v1.2.3-0.20200101000000-abcdef123456'',
                   mod_Replace := None\<rparr>)
     = Inr \<lparr>Dir = mod_Dir m, Path = mod_Path m, Version = Some ''v1.2.3'',
            Revision = Some ''abcdef123456'', Overwrite_Path = None, licenses = None\<rparr>
   \<and> read_module (m\<lparr>mod_Version := Some ''v0.0.0'', mod_Replace := None\<rparr>)
     = Inr \<lparr>Dir = mod_Dir m, Path = mod_Path m, Version = None,
            Revision = None, Overwrite_Path = None, licenses = None\<rparr>
   \<and> read_go_module_deps
         [\<lparr>pkg_Standard = False,
           pkg_Module = Some \<lparr>mod_Path = path, mod_Dir = dir, mod_Main = False,
                               mod_Version = Some ''v1.2.3-0.20200101000000-abcdef123456'',
                               mod_Replace = None\<rparr>\<rparr>]
     = Inr [(path, \<lparr>Dir = dir, Path = path, Version = Some ''v1.2.3'',
                    Revision = Some ''abcdef123456'', Overwrite_Path = None,
                    licenses = None\<rparr>)]
   \<and> read_go_module_deps
         [\<lparr>pkg_Standard = False,
           pkg_Module = Some \<lparr>mod_Path = path, mod_Dir = dir, mod_Main = False,
                               mod_Version = Some ''v0.0.0'', mod_Replace = None\<rparr>\<rparr>]
     = Inr [(path, \<lparr>Dir = dir, Path = path, Version = None, Revision = None,
                    Overwrite_Path = None, licenses = None\<rparr>)]
   \<and> Version (set_version ''v1.2.3-0.20200101000000-abcdef123456'' module) = Some ''v1.2.3''
   \<and> Revision (set_version ''v1.2.3-0.20200101000000-abcdef123456'' module)
        = Some ''abcdef123456''
   \<and> set_version ''v0.0.0'' module = module"
  by (simp add: read_go_module_deps_def read_module_def set_version_pseudo set_version_zero)

subsection \<open>The source-hosting URL: claims C9 and C10\<close>

lemma split_on_not_Nil: "split_on sep s \<noteq> []"
  by (induction s) (auto split: list.splits)

lemma split_on_no_sep: "sep \<notin> set s \<Longrightarrow> split_on sep s = [s]"
  by (induction s) auto

lemma split_on_append_sep:
  "sep \<notin> set a \<Longrightarrow> split_on sep (a @ sep # b) = a # split_on sep b"
  by (induction a) (auto simp: split_on_not_Nil split: list.splits)

lemma split_github: "split_on CHR ''/'' (''github.com/'' @ s) = ''github.com'' # split_on CHR ''/'' s"
  using split_on_append_sep [of "CHR ''/''" "''github.com''" s] by simp

text \<open>
  Claim C9. A path \<^verbatim>\<open>github.com/OWNER/REPO\<close> or \<^verbatim>\<open>github.com/OWNER/REPO/...\<close>, where
  \<open>OWNER\<close> and \<open>REPO\<close> are segments (they contain no slash), is mapped to
  \<^verbatim>\<open>https://github.com/OWNER/REPO\<close>; a path whose first segment is not \<^verbatim>\<open>github.com\<close> is
  returned unchanged.
\<close>

theorem get_url_github:
  "(CHR ''/'' \<notin> set owner \<and> CHR ''/'' \<notin> set repo \<longrightarrow>
      get_url (''github.com/'' @ owner @ ''/'' @ repo)
        = Inr (''https://github.com/'' @ owner @ ''/'' @ repo)
    \<and> get_url (''github.com/'' @ owner @ ''/'' @ repo @ ''/'' @ rest)
        = Inr (''https://github.com/'' @ owner @ ''/'' @ repo))
   \<and> (hd (split_on CHR ''/'' path) \<noteq> ''github.com'' \<longrightarrow> get_url path = Inr path)"
proof (intro conjI impI)
  assume h: "CHR ''/'' \<notin> set owner \<and> CHR ''/'' \<notin> set repo"
  have a: "split_on CHR ''/'' (owner @ ''/'' @ repo) = [owner, repo]"
    using h split_on_append_sep [of "CHR ''/''" owner repo] by (simp add: split_on_no_sep)
  have b: "split_on CHR ''/'' (owner @ ''/'' @ repo @ ''/'' @ rest)
             = owner # repo # split_on CHR ''/'' rest"
    using h split_on_append_sep [of "CHR ''/''" owner "repo @ ''/'' @ rest"]
      split_on_append_sep [of "CHR ''/''" repo rest] by simp
  show "get_url (''github.com/'' @ owner @ ''/'' @ repo)
          = Inr (''https://github.com/'' @ owner @ ''/'' @ repo)"
    unfolding get_url_def split_github a by simp
  show "get_url (''github.com/'' @ owner @ ''/'' @ repo @ ''/'' @ rest)
          = Inr (''https://github.com/'' @ owner @ ''/'' @ repo)"
    unfolding get_url_def split_github b by simp
next
  assume "hd (split_on CHR ''/'' path) \<noteq> ''github.com''"
  then show "get_url path = Inr path" by (simp add: get_url_def)
qed

theorem get_url_github_witness:
  "CHR ''/'' \<notin> set ''elastic'' \<and> CHR ''/'' \<notin> set ''beats''
   \<and> get_url ''github.com/elastic/beats'' = Inr ''https://github.com/elastic/beats''
   \<and> get_url ''github.com/elastic/beats/libbeat'' = Inr ''https://github.com/elastic/beats''
   \<and> hd (split_on CHR ''/'' ''golang.org/x/sys'') \<noteq> ''github.com''
   \<and> get_url ''golang.org/x/sys'' = Inr ''golang.org/x/sys''"
  using get_url_github [of "''elastic''" "''beats''" "''libbeat''" "''golang.org/x/sys''"]
  by simp

text \<open>
  Claim C10. \<^verbatim>\<open>get_url\<close> is partial: it raises \<^verbatim>\<open>IndexError\<close> exactly on the paths whose first
  segment is \<^verbatim>\<open>github.com\<close> and which have fewer than three segments, such as
  \<^verbatim>\<open>github.com\<close> and \<^verbatim>\<open>github.com/owner\<close>; on every other path it returns.
\<close>

theorem get_url_index_error:
  "get_url path = Inl IndexError
     \<longleftrightarrow> hd (split_on CHR ''/'' path) = ''github.com'' \<and> length (split_on CHR ''/'' path) < 3"
  by (auto simp: get_url_def Let_def)

theorem get_url_index_error_witness:
  "hd (split_on CHR ''/'' ''github.com'') = ''github.com''
   \<and> length (split_on CHR ''/'' ''github.com'') < 3
   \<and> get_url ''github.com'' = Inl IndexError
   \<and> hd (split_on CHR ''/'' ''github.com/owner'') = ''github.com''
   \<and> length (split_on CHR ''/'' ''github.com/owner'') < 3
   \<and> get_url ''github.com/owner'' = Inl IndexError"
  using get_url_index_error [of "''github.com''"] get_url_index_error [of "''github.com/owner''"]
  by simp

subsection \<open>The notice writer: claims C6 and C7\<close>

lemma write_notices_concat:
  "write_notices f notices =
     f @ concat (map (\<lambda>(notice_file, notice_contents).
                        ''-------'' @ basename notice_file @ ''-----\<newline>'' @ notice_contents)
                     notices)"
  by (induction f notices rule: write_notices.induct) simp_all

text \<open>
  Every write appends, so the notice file is the header block followed by the texts of
  the license entries, in the order of the two loops.
\<close>

lemma maybe_write_append: "maybe_write (f @ g) v label = f @ maybe_write g v label"
  by (simp add: maybe_write_def split: option.splits)

lemma write_lib_header_append:
  "write_lib_header f key module lib = f @ write_lib_header [] key module lib"
  unfolding write_lib_header_def Let_def
  by (simp only: maybe_write_append append_assoc append_Nil)

lemma write_lib_append:
  "write_lib SKIP_NOTICE f key module lib = f @ write_lib SKIP_NOTICE [] key module lib"
  using write_lib_header_append [of f key module lib]
  by (simp add: write_lib_def write_lib_body_def write_notices_concat Let_def)

lemma write_libs_concat:
  "write_libs SKIP_NOTICE f key module libs
     = f @ concat (map (write_lib SKIP_NOTICE [] key module) libs)"
proof (induction libs arbitrary: f)
  case Nil
  show ?case by simp
next
  case (Cons lib libs)
  show ?case
    using Cons.IH [of "write_lib SKIP_NOTICE f key module lib"]
      write_lib_append [of SKIP_NOTICE f key module lib]
    by simp
qed

lemma write_modules_concat:
  "write_modules SKIP_NOTICE f modules keys
     = f @ concat (map (\<lambda>(key, module, lib). write_lib SKIP_NOTICE [] key module lib)
                     (concat (map (\<lambda>key. case map_of modules key of
                                             None \<Rightarrow> []
                                           | Some module \<Rightarrow>
                                               map (\<lambda>lib. (key, module, lib))
                                                 (case licenses module of
                                                    None \<Rightarrow> [] | Some libs \<Rightarrow> libs))
                                  keys)))"
proof (induction keys arbitrary: f)
  case Nil
  show ?case by simp
next
  case (Cons key keys)
  show ?case
  proof (cases "map_of modules key")
    case None
    then show ?thesis using Cons.IH [of f] by simp
  next
    case (Some module)
    have "concat (map (\<lambda>(key, module, lib). write_lib SKIP_NOTICE [] key module lib)
                   (map (\<lambda>lib. (key, module, lib)) libs))
            = concat (map (write_lib SKIP_NOTICE [] key module) libs)" for libs
      by (simp add: comp_def)
    then show ?thesis
      using Some Cons.IH [of "write_libs SKIP_NOTICE f key module
                                (case licenses module of None \<Rightarrow> [] | Some libs \<Rightarrow> libs)"]
      by (simp add: write_libs_concat)
  qed
qed

lemma write_notice_file_entries:
  "write_notice_file SKIP_NOTICE f beat copyright year modules
     = write_header f beat copyright year
       @ concat (map (\<lambda>(key, module, lib). write_lib SKIP_NOTICE [] key module lib)
                     (notice_entries modules))"
  by (simp only: write_notice_file_def notice_entries_def write_modules_concat)

text \<open>The text of one entry: its header lines and what follows them.\<close>

lemma write_lib_text:
  "write_lib SKIP_NOTICE [] key module lib
     = write_lib_header [] key module lib
       @ (if license_summary lib \<noteq> ''Apache-2.0'' then license_contents lib
          else ''Apache License 2.0\<newline>\<newline>''
               @ (if in_SKIP_NOTICE (license_file lib) SKIP_NOTICE then []
                  else concat (map (\<lambda>(notice_file, notice_contents).
                                      ''-------'' @ basename notice_file @ ''-----\<newline>''
                                      @ notice_contents)
                                   (notice_files lib))))"
  by (simp add: write_lib_def write_lib_body_def write_notices_concat Let_def)

text \<open>
  Claim C6. In notice mode the file written by \<^verbatim>\<open>write_notice_file\<close> is the header block
  followed, for every license entry in turn, by the header lines of the entry and then:
  for an entry whose summary is \<^verbatim>\<open>Apache-2.0\<close>, the stamp \<^verbatim>\<open>Apache License 2.0\<close> and, when
  the file path is not in the skip-list, every notice file under a banner with the base
  name of the notice file, the text of the license itself not being written; for an
  entry with any other summary, the full license text.
\<close>

theorem apache_entry_notice_files:
  "write_notice_file SKIP_NOTICE f beat copyright year modules
     = write_header f beat copyright year
       @ concat (map (\<lambda>(key, module, lib).
                        write_lib_header [] key module lib
                        @ (if license_summary lib \<noteq> ''Apache-2.0'' then license_contents lib
                           else ''Apache License 2.0\<newline>\<newline>''
                                @ (if in_SKIP_NOTICE (license_file lib) SKIP_NOTICE then []
                                   else concat (map (\<lambda>(notice_file, notice_contents).
                                                       ''-------'' @ basename notice_file
                                                       @ ''-----\<newline>'' @ notice_contents)
                                                    (notice_files lib)))))
                     (notice_entries modules))"
  by (simp only: write_notice_file_entries write_lib_text)

text \<open>The entries of the concrete dictionaries; the keys are sorted without regard to case.\<close>

lemma sorted_keys_two_modules:
  "sorted_keys two_modules = [''github.com/example/foo'', ''github.com/Zeta/zeta'']"
  by code_simp

lemma notice_entries_two_modules:
  "notice_entries two_modules
     = [(''github.com/example/foo'', foo_module, apache_lib),
        (''github.com/example/foo'', foo_module, mit_lib),
        (''github.com/Zeta/zeta'', zeta_module, zeta_lib)]"
proof -
  have "map_of two_modules ''github.com/example/foo'' = Some foo_module"
    "map_of two_modules ''github.com/Zeta/zeta'' = Some zeta_module"
    by (simp_all add: two_modules_def)
  moreover have "licenses foo_module = Some [apache_lib, mit_lib]"
    "licenses zeta_module = Some [zeta_lib]"
    by (simp_all add: foo_module_def zeta_module_def)
  ultimately show ?thesis
    by (simp add: notice_entries_def sorted_keys_two_modules)
qed

lemma notice_entries_apache_modules:
  "notice_entries apache_modules = [(''github.com/example/foo'', apache_module, apache_lib)]"
  by (simp add: notice_entries_def sorted_keys_def apache_modules_def apache_module_def)

lemma basename_example: "basename ''github.com/example/foo/NOTICE'' = ''NOTICE''"
  by (simp add: basename_def)

lemma example_summaries:
  "license_summary apache_lib = ''Apache-2.0''" "license_summary mit_lib = ''MIT''"
  "license_summary zeta_lib = ''ISC''"
  "license_contents mit_lib = ''Permission is hereby granted''"
  "license_contents zeta_lib = ''ISC License''"
  "notice_files apache_lib = [(''github.com/example/foo/NOTICE'', ''Example Foo\<newline>'')]"
  "license_file apache_lib = ''github.com/example/foo/LICENSE''"
  "license_file mit_lib = ''github.com/example/foo/LICENSE''"
  by (simp_all add: apache_lib_def mit_lib_def zeta_lib_def)

theorem apache_entry_notice_files_witness:
  "write_notice_file (SkipList []) [] ''Elastic Beats'' ''Elasticsearch BV'' 2020 two_modules
     = write_header [] ''Elastic Beats'' ''Elasticsearch BV'' 2020
       @ write_lib_header [] ''github.com/example/foo'' foo_module apache_lib
       @ ''Apache License 2.0\<newline>\<newline>-------NOTICE-----\<newline>Example Foo\<newline>''
       @ write_lib_header [] ''github.com/example/foo'' foo_module mit_lib
       @ ''Permission is hereby granted''
       @ write_lib_header [] ''github.com/Zeta/zeta'' zeta_module zeta_lib
       @ ''ISC License''"
  using apache_entry_notice_files
          [of "SkipList []" "[]" "''Elastic Beats''" "''Elasticsearch BV''" 2020 two_modules]
  by (simp add: notice_entries_two_modules example_summaries basename_example)

text \<open>
  Claim C7 says that an entry whose file path is in the skip-list gets no body at all.
  It does not hold: the test of line 193 stands after the write of the stamp, inside the
  branch for \<^verbatim>\<open>Apache-2.0\<close>, so in the notice file the stamp follows the header lines of
  such an entry.
\<close>

theorem skipped_entry_counterexample:
  "in_SKIP_NOTICE (license_file apache_lib) skip_foo
   \<and> write_notice_file skip_foo [] ''Elastic Beats'' ''Elasticsearch BV'' 2020 apache_modules
       = write_header [] ''Elastic Beats'' ''Elasticsearch BV'' 2020
         @ write_lib_header [] ''github.com/example/foo'' apache_module apache_lib
         @ ''Apache License 2.0\<newline>\<newline>''
   \<and> write_notice_file skip_foo [] ''Elastic Beats'' ''Elasticsearch BV'' 2020 apache_modules
       \<noteq> write_header [] ''Elastic Beats'' ''Elasticsearch BV'' 2020
         @ write_lib_header [] ''github.com/example/foo'' apache_module apache_lib"
proof -
  have skip: "in_SKIP_NOTICE (license_file apache_lib) skip_foo"
    by (simp add: example_summaries skip_foo_def)
  then have "write_notice_file skip_foo [] ''Elastic Beats'' ''Elasticsearch BV'' 2020 apache_modules
       = write_header [] ''Elastic Beats'' ''Elasticsearch BV'' 2020
         @ write_lib_header [] ''github.com/example/foo'' apache_module apache_lib
         @ ''Apache License 2.0\<newline>\<newline>''"
    by (simp add: write_notice_file_entries notice_entries_apache_modules write_lib_text
          example_summaries)
  with skip show ?thesis by simp
qed

text \<open>
  Claim C7, amended. In the file written by \<^verbatim>\<open>write_notice_file\<close>, the header lines of a
  license entry whose file path is in the skip-list are followed by the stamp
  \<^verbatim>\<open>Apache License 2.0\<close> and nothing else of that entry (no notice file) when the
  summary of the entry is \<^verbatim>\<open>Apache-2.0\<close>, and by the full license text when the summary is
  any other; the entries before and after it are written as usual.
\<close>

theorem skipped_entry_body:
  assumes "notice_entries modules = before @ (key, module, lib) # after"
    and "in_SKIP_NOTICE (license_file lib) SKIP_NOTICE"
  shows "write_notice_file SKIP_NOTICE f beat copyright year modules
           = write_header f beat copyright year
             @ concat (map (\<lambda>(key, module, lib). write_lib SKIP_NOTICE [] key module lib) before)
             @ write_lib_header [] key module lib
             @ (if license_summary lib = ''Apache-2.0'' then ''Apache License 2.0\<newline>\<newline>''
                else license_contents lib)
             @ concat (map (\<lambda>(key, module, lib). write_lib SKIP_NOTICE [] key module lib) after)"
  using assms(2) by (simp add: write_notice_file_entries assms(1) write_lib_text [of _ key module lib])

theorem skipped_entry_body_witness:
  "notice_entries two_modules
     = [] @ (''github.com/example/foo'', foo_module, apache_lib)
          # [(''github.com/example/foo'', foo_module, mit_lib),
             (''github.com/Zeta/zeta'', zeta_module, zeta_lib)]
   \<and> notice_entries two_modules
     = [(''github.com/example/foo'', foo_module, apache_lib)]
       @ (''github.com/example/foo'', foo_module, mit_lib)
         # [(''github.com/Zeta/zeta'', zeta_module, zeta_lib)]
   \<and> in_SKIP_NOTICE (license_file apache_lib) skip_foo
   \<and> in_SKIP_NOTICE (license_file mit_lib) skip_foo
   \<and> write_notice_file skip_foo [] ''Elastic Beats'' ''Elasticsearch BV'' 2020 two_modules
       = write_header [] ''Elastic Beats'' ''Elasticsearch BV'' 2020
         @ write_lib_header [] ''github.com/example/foo'' foo_module apache_lib
         @ ''Apache License 2.0\<newline>\<newline>''
         @ write_lib_header [] ''github.com/example/foo'' foo_module mit_lib
         @ ''Permission is hereby granted''
         @ write_lib_header [] ''github.com/Zeta/zeta'' zeta_module zeta_lib
         @ ''ISC License''"
proof -
  have e1: "notice_entries two_modules
     = [] @ (''github.com/example/foo'', foo_module, apache_lib)
          # [(''github.com/example/foo'', foo_module, mit_lib),
             (''github.com/Zeta/zeta'', zeta_module, zeta_lib)]"
    by (simp add: notice_entries_two_modules)
  have e2: "notice_entries two_modules
     = [(''github.com/example/foo'', foo_module, apache_lib)]
       @ (''github.com/example/foo'', foo_module, mit_lib)
         # [(''github.com/Zeta/zeta'', zeta_module, zeta_lib)]"
    by (simp add: notice_entries_two_modules)
  have s1: "in_SKIP_NOTICE (license_file apache_lib) skip_foo"
    and s2: "in_SKIP_NOTICE (license_file mit_lib) skip_foo"
    by (simp_all add: example_summaries skip_foo_def)
  show ?thesis
    using e1 e2 s1 s2
      skipped_entry_body [OF e1 s1, of "[]" "''Elastic Beats''" "''Elasticsearch BV''" 2020]
      skipped_entry_body [OF e2 s2, of "[]" "''Elastic Beats''" "''Elasticsearch BV''" 2020]
    by (simp add: write_lib_text example_summaries)
qed

subsection \<open>The tabular writer: claim C3\<close>

lemma sorted_keys_eq_Nil: "sorted_keys d = [] \<longleftrightarrow> d = []"
proof -
  have "length (sorted_keys d) = length d"
    by (simp add: sorted_keys_def)
  then show ?thesis by (metis length_0_conv)
qed

lemma set_sorted_keys: "set (sorted_keys d) = fst ` set d"
  by (simp add: sorted_keys_def)

lemma csv_row_key: "\<exists>e. csv_row key (PyStr k) = Inl e"
  by (cases "get_url key") (simp_all add: csv_row_def)

lemma map_of_py_of_modules:
  "key \<in> fst ` set modules \<Longrightarrow> \<exists>module. map_of (py_of_modules modules) key = Some (py_of_module module)"
  by (induction modules) (auto simp: py_of_modules_def)

text \<open>
  In tabular mode no row is ever written after the header: the inner loop of
  \<^verbatim>\<open>write_csv_file\<close> iterates over a module dictionary, whose first key is a string, and
  the row for it raises.
\<close>

lemma csv_mode_raises:
  assumes "modules \<noteq> []"
  shows "\<exists>e. write_csv_file [] (py_of_modules modules) = ([csv_header], Some e)"
proof -
  have "sorted_keys (py_of_modules modules) \<noteq> []"
    using assms by (simp add: sorted_keys_eq_Nil py_of_modules_def)
  then obtain key keys where keys: "sorted_keys (py_of_modules modules) = key # keys"
    by (cases "sorted_keys (py_of_modules modules)") auto
  then have "key \<in> set (sorted_keys (py_of_modules modules))"
    by simp
  then have "key \<in> fst ` set modules"
    unfolding set_sorted_keys by (force simp: py_of_modules_def)
  then obtain module where m: "map_of (py_of_modules modules) key = Some (py_of_module module)"
    using map_of_py_of_modules by blast
  obtain rest where it: "py_iter (py_of_module module) = Inr (PyStr ''Path'' # rest)"
    by (simp add: py_of_module_def)
  obtain e where "csv_row key (PyStr ''Path'') = Inl e"
    using csv_row_key by blast
  then have "write_csv_file [] (py_of_modules modules) = ([csv_header], Some e)"
    by (simp add: write_csv_file_def keys m it)
  then show ?thesis ..
qed

text \<open>
  Claim C3, on the code. For the dependency \<^verbatim>\<open>github.com/example/foo\<close> with one license
  file that is classified as \<^verbatim>\<open>MIT\<close>, tabular mode writes the header row and then raises
  \<^verbatim>\<open>AttributeError\<close>: the row that the claim describes is not written.
\<close>

theorem csv_mode_attribute_error:
  "license_summary foo_license = ''MIT''
   \<and> create_notice SKIP_NOTICE beat copyright year (Some ''deps.csv'') foo_modules
       = (CsvFile [csv_header], Inl (AttributeError ''get''))
   \<and> csv_row ''github.com/example/foo'' (py_of_license foo_license)
       = Inr [PyStr ''github.com/example/foo'', PyStr ''https://github.com/example/foo'',
              PyStr '''', PyStr '''', PyStr ''MIT'']"
proof -
  have mit: "license_summary foo_license = ''MIT''"
    using detect_mit [OF mit_license_window(2) mit_license_window(1)]
    by (simp add: foo_license_def)
  have url: "get_url ''github.com/example/foo'' = Inr ''https://github.com/example/foo''"
    by (simp add: get_url_def)
  have row: "csv_row ''github.com/example/foo'' (PyStr ''Path'') = Inl (AttributeError ''get'')"
    by (simp add: csv_row_def url)
  have "write_csv_file [] (py_of_modules foo_modules)
          = ([csv_header], Some (AttributeError ''get''))"
    by (simp add: write_csv_file_def sorted_keys_def py_of_modules_def py_of_module_def
          foo_modules_def row)
  then have "create_notice SKIP_NOTICE beat copyright year (Some ''deps.csv'') foo_modules
               = (CsvFile [csv_header], Inl (AttributeError ''get''))"
    by (simp add: create_notice_def)
  moreover have "csv_row ''github.com/example/foo'' (py_of_license foo_license)
       = Inr [PyStr ''github.com/example/foo'', PyStr ''https://github.com/example/foo'',
              PyStr '''', PyStr '''', PyStr ''MIT'']"
    using mit by (simp add: csv_row_def url py_of_license_def)
  ultimately show ?thesis
    using mit by simp
qed


subsection \<open>The check of the licenses: claim C4\<close>

lemma check_licenses_Inl:
  "(\<exists>e. check_licenses modpath libs = Inl e)
     \<longleftrightarrow> list_ex (\<lambda>l. license_summary l \<notin> set ACCEPTED_LICENSES) libs"
  by (induction libs) auto

lemma check_modules_Inl:
  "(\<exists>e. check_modules ms = Inl e)
     \<longleftrightarrow> list_ex (\<lambda>(modpath, module).
           case licenses module of
             None \<Rightarrow> True
           | Some libs \<Rightarrow> libs = [] \<or> list_ex (\<lambda>l. license_summary l \<notin> set ACCEPTED_LICENSES) libs)
         ms"
proof (induction ms rule: check_modules.induct)
  case 1
  show ?case by simp
next
  case (2 modpath module rest)
  show ?case
  proof (cases "licenses module")
    case None
    then show ?thesis by simp
  next
    case (Some libs)
    show ?thesis
    proof (cases "libs = []")
      case True
      with Some show ?thesis by simp
    next
      case False
      show ?thesis
      proof (cases "check_licenses modpath libs")
        case (Inl e)
        then have "list_ex (\<lambda>l. license_summary l \<notin> set ACCEPTED_LICENSES) libs"
          using check_licenses_Inl [of modpath libs] by auto
        with Some False Inl show ?thesis by simp
      next
        case (Inr u)
        then have "\<not> list_ex (\<lambda>l. license_summary l \<notin> set ACCEPTED_LICENSES) libs"
          using check_licenses_Inl [of modpath libs] by auto
        with Some False Inr "2.IH" [OF Some False Inr] show ?thesis by simp
      qed
    qed
  qed
qed

lemma set_ACCEPTED_LICENSES:
  "set ACCEPTED_LICENSES
     = {''Apache-2.0'', ''MIT'', ''BSD-4-Clause'', ''BSD-3-Clause'', ''BSD-2-Clause'',
        ''MPL-2.0'', ''UPL-1.0'', ''ISC''}"
  by (simp add: ACCEPTED_LICENSES_def)

text \<open>
  Claim C4. The check of the licenses runs after the report has been written: in notice
  mode the complete notice file is written whatever the check then finds, and in both
  modes the check sees the modules once \<^verbatim>\<open>create_notice\<close> has returned them. The check
  raises if and only if some dependency has no license record (the key is missing or
  the list is empty) or some license has a summary outside the accepted list.
\<close>

theorem validation_after_report:
  "main SKIP_NOTICE beat copyright year None gathered
     = (NoticeFile (write_notice_file SKIP_NOTICE '''' beat copyright year gathered),
        check_modules gathered)
   \<and> (create_notice SKIP_NOTICE beat copyright year csvfile gathered = (written, Inr modules)
        \<longrightarrow> main SKIP_NOTICE beat copyright year csvfile gathered
              = (written, check_modules modules))
   \<and> ((\<exists>e. check_modules modules = Inl e)
        \<longleftrightarrow> list_ex (\<lambda>(modpath, module).
              case licenses module of
                None \<Rightarrow> True
              | Some libs \<Rightarrow>
                  libs = []
                  \<or> list_ex (\<lambda>l. license_summary l \<notin>
                                {''Apache-2.0'', ''MIT'', ''BSD-4-Clause'', ''BSD-3-Clause'',
                                 ''BSD-2-Clause'', ''MPL-2.0'', ''UPL-1.0'', ''ISC''}) libs)
            modules)"
  unfolding check_modules_Inl set_ACCEPTED_LICENSES
  by (simp add: main_def create_notice_def)

theorem validation_after_report_witness:
  "main (SkipList []) ''Elastic Beats'' ''Elasticsearch BV'' 2020 None
     [(''github.com/example/foo'', example_module)]
     = (NoticeFile (write_notice_file (SkipList []) [] ''Elastic Beats'' ''Elasticsearch BV'' 2020
                      [(''github.com/example/foo'', example_module)]),
        Inl (Exception ''Missing license in module: github.com/example/foo''))
   \<and> create_notice (SkipList []) ''Elastic Beats'' ''Elasticsearch BV'' 2020 None
         [(''github.com/example/foo'', example_module\<lparr>licenses := Some [unknown_lib]\<rparr>)]
       = (NoticeFile (write_notice_file (SkipList []) [] ''Elastic Beats'' ''Elasticsearch BV'' 2020
                        [(''github.com/example/foo'',
                          example_module\<lparr>licenses := Some [unknown_lib]\<rparr>)]),
          Inr [(''github.com/example/foo'', example_module\<lparr>licenses := Some [unknown_lib]\<rparr>)])
   \<and> main (SkipList []) ''Elastic Beats'' ''Elasticsearch BV'' 2020 None
         [(''github.com/example/foo'', example_module\<lparr>licenses := Some [unknown_lib]\<rparr>)]
       = (NoticeFile (write_notice_file (SkipList []) [] ''Elastic Beats'' ''Elasticsearch BV'' 2020
                        [(''github.com/example/foo'',
                          example_module\<lparr>licenses := Some [unknown_lib]\<rparr>)]),
          Inl (Exception (''Dependency github.com/example/foo has invalid UNKNOWN license: ''
                          @ ''github.com/example/foo/LICENSE'')))
   \<and> (\<exists>e. check_modules
              [(''github.com/example/foo'', example_module\<lparr>licenses := Some [unknown_lib]\<rparr>)]
            = Inl e)
   \<and> check_modules [(''github.com/example/foo'', example_module\<lparr>licenses := Some [mit_lib]\<rparr>)]
       = Inr ()"
  using validation_after_report
          [of "SkipList []" "''Elastic Beats''" "''Elasticsearch BV''" 2020
              "[(''github.com/example/foo'', example_module)]" None
              "NoticeFile (write_notice_file (SkipList []) [] ''Elastic Beats''
                 ''Elasticsearch BV'' 2020 [(''github.com/example/foo'', example_module)])"
              "[(''github.com/example/foo'', example_module\<lparr>licenses := Some [unknown_lib]\<rparr>)]"]
        validation_after_report
          [of "SkipList []" "''Elastic Beats''" "''Elasticsearch BV''" 2020
              "[(''github.com/example/foo'', example_module\<lparr>licenses := Some [unknown_lib]\<rparr>)]"
              None
              "NoticeFile (write_notice_file (SkipList []) [] ''Elastic Beats''
                 ''Elasticsearch BV'' 2020
                 [(''github.com/example/foo'',
                   example_module\<lparr>licenses := Some [unknown_lib]\<rparr>)])"
              "[(''github.com/example/foo'', example_module\<lparr>licenses := Some [mit_lib]\<rparr>)]"]
  by (simp add: example_module_def unknown_lib_def mit_lib_def create_notice_def
        ACCEPTED_LICENSES_def)


end
